theory Spec2Isabelle
  imports Main "HOL-Library.Signed_Division" "HOL-Library.AList"
begin

section \<open>The docker test harness (cmd/tools/dtest/docker/harness)\<close>

subsection \<open>Errors and effects\<close>

text \<open>
  An \<^verbatim>\<open>error\<close> value of the harness: the sentinel \<^verbatim>\<open>errClosed\<close>, the error
  \<^verbatim>\<open>fmt.Errorf("status code %d", code)\<close> built by the response decoders, and any
  error handed back by a library call (reading a body, unmarshalling, purging a
  container, closing a body), kept by its message.
\<close>

datatype error =
    errClosed
  | StatusCodeError int
  | LibError string

text \<open>
  What a call does to the world outside its arguments, in order: a line on the zap
  logger (with the error attached through \<^verbatim>\<open>zap.Error\<close>, when there is one), the
  call \<^verbatim>\<open>pool.Purge(resource)\<close> (with the name of the container purged), and the
  deferred \<^verbatim>\<open>resp.Body.Close()\<close> together with what it returned.
\<close>

datatype effect =
    LogError string "error option"
  | LogInfo string
  | Purge string
  | BodyClose "error option"

subsection \<open>dockerResourceOptions.withDefaults\<close>

text \<open>
  A Go slice is \<^verbatim>\<open>nil\<close> or holds elements; \<^verbatim>\<open>len\<close> is 0 for \<^verbatim>\<open>nil\<close> and for
  the empty slice alike.
\<close>

datatype 'a slice = Nil_slice | Slice "'a list"

fun len :: "'a slice \<Rightarrow> nat" where
  "len Nil_slice = 0"
| "len (Slice xs) = length xs"

text \<open>
  The struct \<^verbatim>\<open>dockerResourceOptions\<close>. \<^verbatim>\<open>iOpts\<close> is an interface value
  (\<^verbatim>\<open>instrument.Options\<close>), \<^verbatim>\<open>None\<close> when it is \<^verbatim>\<open>nil\<close>.
\<close>

record 'i dockerResourceOptions =
  overrideDefaults :: bool
  source :: string
  containerName :: string
  dockerFile :: string
  portList :: "int slice"
  mounts :: "string slice"
  iOpts :: "'i option"

text \<open>
  The receiver is passed by value; each \<^verbatim>\<open>if\<close> of the body assigns one field of
  the copy, in the order of the source.
\<close>

definition withDefaults ::
  "'i dockerResourceOptions \<Rightarrow> 'i dockerResourceOptions \<Rightarrow> 'i dockerResourceOptions" where
  "withDefaults opts defaultOpts =
     (if overrideDefaults opts then opts
      else
        let o1 = (if length (source opts) = 0
                  then opts\<lparr>source := source defaultOpts\<rparr> else opts);
            o2 = (if length (containerName o1) = 0
                  then o1\<lparr>containerName := containerName defaultOpts\<rparr> else o1);
            o3 = (if length (dockerFile o2) = 0
                  then o2\<lparr>dockerFile := dockerFile defaultOpts\<rparr> else o2);
            o4 = (if len (portList o3) = 0
                  then o3\<lparr>portList := portList defaultOpts\<rparr> else o3);
            o5 = (if len (mounts o4) = 0
                  then o4\<lparr>mounts := mounts defaultOpts\<rparr> else o4);
            o6 = (if iOpts o5 = None
                  then o5\<lparr>iOpts := iOpts defaultOpts\<rparr> else o5)
        in o6)"

subsection \<open>dockerResource.close\<close>

text \<open>
  The struct \<^verbatim>\<open>dockerResource\<close>: the \<^verbatim>\<open>closed\<close> flag, the container
  \<^verbatim>\<open>resource\<close> (by its name) and the docker \<^verbatim>\<open>pool\<close> it runs in (the state of the pool object
  the pointer leads to). The logger is write-only; its lines are effects.
\<close>

record 'p dockerResource =
  closed :: bool
  resource :: string
  pool :: 'p

text \<open>
  \<^verbatim>\<open>close\<close> returns its error, the receiver after the call and the effects of the call.
  \<^verbatim>\<open>pool.Purge\<close> belongs to the dockertest library: \<open>purge\<close> stands for it, taking
  the pool and the container to the error it returns and the pool afterwards.
\<close>

definition close ::
  "('p \<Rightarrow> string \<Rightarrow> error option \<times> 'p) \<Rightarrow> 'p dockerResource \<Rightarrow>
     error option \<times> 'p dockerResource \<times> effect list" where
  "close purge c =
     (if closed c
      then (Some errClosed, c, [LogError ''closing closed resource'' (Some errClosed)])
      else
        let c1 = c\<lparr>closed := True\<rparr>;
            (err, p) = purge (pool c1) (resource c1)
        in (err, c1\<lparr>pool := p\<rparr>, [LogInfo ''closing resource'', Purge (resource c1)]))"

text \<open>\<open>n\<close> calls of \<^verbatim>\<open>close\<close> in a row on one resource: the errors, the resource at
  the end and all effects in order.\<close>

fun close_calls ::
  "('p \<Rightarrow> string \<Rightarrow> error option \<times> 'p) \<Rightarrow> nat \<Rightarrow> 'p dockerResource \<Rightarrow>
     error option list \<times> 'p dockerResource \<times> effect list" where
  "close_calls purge 0 c = ([], c, [])"
| "close_calls purge (Suc n) c =
     (case close purge c of (err, c1, fx) \<Rightarrow>
        (case close_calls purge n c1 of (errs, c2, fxs) \<Rightarrow> (err # errs, c2, fx @ fxs)))"

fun is_Purge :: "effect \<Rightarrow> bool" where
  "is_Purge (Purge r) = True"
| "is_Purge (LogError msg err) = False"
| "is_Purge (LogInfo msg) = False"
| "is_Purge (BodyClose err) = False"

definition purges :: "effect list \<Rightarrow> nat" where
  "purges fx = length (filter is_Purge fx)"

subsection \<open>toResponse and toResponseThrift\<close>

text \<open>
  What the decoders read of an \<^verbatim>\<open>http.Response\<close>: the status code (a Go \<^verbatim>\<open>int\<close>;
  its quotient by 100 cannot overflow), the status line and the body. Of the body, a
  \<^verbatim>\<open>io.ReadCloser\<close> of the caller's, the decoders use \<^verbatim>\<open>ioutil.ReadAll\<close>, which gives
  an error or the bytes, and \<^verbatim>\<open>Close\<close>, which gives an error or \<^verbatim>\<open>nil\<close>.
\<close>

record body =
  read_all :: "error + string"
  close_err :: "error option"

record Response =
  StatusCode :: int
  Status :: string
  Body :: body

text \<open>
  \<open>unmarshal\<close> stands for \<^verbatim>\<open>jsonpb.Unmarshal\<close>: from the bytes and the message it was
  given it returns an error or \<^verbatim>\<open>nil\<close>, and the message as it left it. Go's \<^verbatim>\<open>/\<close>
  truncates towards zero (\<open>sdiv\<close>). The \<^verbatim>\<open>defer resp.Body.Close()\<close> stands after the
  first return, so the body is closed on every later return and not on the first, and
  the value \<^verbatim>\<open>Close\<close> returns goes nowhere.
\<close>

definition toResponse ::
  "(string \<Rightarrow> 'm \<Rightarrow> error option \<times> 'm) \<Rightarrow> Response \<Rightarrow> 'm \<Rightarrow>
     error option \<times> 'm \<times> effect list" where
  "toResponse unmarshal resp response =
     (case read_all (Body resp) of
        Inl err \<Rightarrow> (Some err, response, [LogError ''could not read body'' (Some err)])
      | Inr b \<Rightarrow>
          if StatusCode resp sdiv 100 \<noteq> 2
          then (Some (StatusCodeError (StatusCode resp)), response,
                [LogError ''status code not 2xx'' None, BodyClose (close_err (Body resp))])
          else
            (case unmarshal b response of
               (Some err, response') \<Rightarrow>
                 (Some err, response',
                  [LogError ''unable to unmarshal response'' (Some err),
                   BodyClose (close_err (Body resp))])
             | (None, response') \<Rightarrow>
                 (None, response', [BodyClose (close_err (Body resp))])))"

text \<open>The same steps with \<^verbatim>\<open>json.Unmarshal\<close> for \<open>unmarshal\<close>.\<close>

definition toResponseThrift ::
  "(string \<Rightarrow> 'm \<Rightarrow> error option \<times> 'm) \<Rightarrow> Response \<Rightarrow> 'm \<Rightarrow>
     error option \<times> 'm \<times> effect list" where
  "toResponseThrift unmarshal resp response =
     (case read_all (Body resp) of
        Inl err \<Rightarrow> (Some err, response, [LogError ''could not read body'' (Some err)])
      | Inr b \<Rightarrow>
          if StatusCode resp sdiv 100 \<noteq> 2
          then (Some (StatusCodeError (StatusCode resp)), response,
                [LogError ''status code not 2xx'' None, BodyClose (close_err (Body resp))])
          else
            (case unmarshal b response of
               (Some err, response') \<Rightarrow>
                 (Some err, response',
                  [LogError ''unable to unmarshal response'' (Some err),
                   BodyClose (close_err (Body resp))])
             | (None, response') \<Rightarrow>
                 (None, response', [BodyClose (close_err (Body resp))])))"

text \<open>An unmarshaller that accepts every body and leaves the message as it was.\<close>

definition unmarshal_any :: "string \<Rightarrow> unit \<Rightarrow> error option \<times> unit" where
  "unmarshal_any b m = (None, m)"

text \<open>
  An error surfaces from a call when the call returns it or logs it. An error that a
  step of the call produced and that does not surface was dropped.
\<close>

fun logs :: "error \<Rightarrow> effect \<Rightarrow> bool" where
  "logs e (LogError msg err) = (err = Some e)"
| "logs e (LogInfo msg) = False"
| "logs e (Purge r) = False"
| "logs e (BodyClose err) = False"

definition surfaces :: "error \<Rightarrow> error option \<times> 'm \<times> effect list \<Rightarrow> bool" where
  "surfaces e out = (fst out = Some e \<or> list_ex (logs e) (snd (snd out)))"


section \<open>The aggregator's managers (aggregator/aggregator)\<close>

text \<open>
  Of the aggregator package the repository's files hold \<^verbatim>\<open>aggregator_mock.go\<close>, the
  generated gomock doubles of the interfaces \<^verbatim>\<open>ElectionManager\<close>,
  \<^verbatim>\<open>FlushTimesManager\<close> and \<^verbatim>\<open>PlacementManager\<close>. A double hands back what the test's
  controller answers; the managers behind the interfaces are in files that are not
  among them, and are modelled below from the specification.
\<close>

subsection \<open>Errors and lifecycle\<close>

text \<open>
  Modelled from the spec: the managers' errors (their declarations are missing). These
  are the names of the specification's error taxonomy; \<open>InstanceNotFound\<close> is added
  for the error result of \<^verbatim>\<open>InstanceFrom\<close>, which the specification declares and
  leaves unnamed.
\<close>

datatype manager_error =
    NotOpen
  | AlreadyOpen
  | AlreadyClosed
  | NoPlacement
  | NoFlushTimes
  | NonMonotonicUpdate
  | Cancelled
  | StoreUnavailable
  | InstanceNotFound

text \<open>
  Modelled from the spec: the lifecycle the three managers share (the lifecycle glue is
  missing). A manager is created not open; \<^verbatim>\<open>Open\<close> on an open manager fails with
  \<open>AlreadyOpen\<close>; a method called before \<^verbatim>\<open>Open\<close> fails with \<open>NotOpen\<close>; \<^verbatim>\<open>Close\<close>
  is terminal, and on a closed manager \<^verbatim>\<open>Open\<close> and \<^verbatim>\<open>Close\<close> fail with
  \<open>AlreadyClosed\<close>.
\<close>

datatype lifecycle = NotOpened | Opened | Closed

text \<open>What \<^verbatim>\<open>Close\<close> releases: the watch on the external store, the campaign, the
  lease.\<close>

datatype release = StopWatch | EndCampaign | ReleaseLease

text \<open>\<open>n\<close> calls in a row of one method that returns an error, the manager after the
  call and what the call released: the manager at the end and everything released.\<close>

fun calls :: "('s \<Rightarrow> 'e \<times> 's \<times> 'x list) \<Rightarrow> nat \<Rightarrow> 's \<Rightarrow> 's \<times> 'x list" where
  "calls f 0 s = (s, [])"
| "calls f (Suc n) s =
     (case f s of (err, s1, xs) \<Rightarrow> (case calls f n s1 of (s2, ys) \<Rightarrow> (s2, xs @ ys)))"

subsection \<open>ElectionManager\<close>

text \<open>
  Modelled from the spec: of the \<^verbatim>\<open>ElectionManager\<close> (its implementation is missing)
  its lifecycle and whether it holds the lease of its shard set. \<^verbatim>\<open>Open\<close> starts the
  campaign and fails with \<open>AlreadyOpen\<close> if called twice; \<^verbatim>\<open>Close\<close> ends the campaign,
  releasing the lease if held, and a second call fails with \<open>AlreadyClosed\<close>.
\<close>

record ElectionManager =
  election_lifecycle :: lifecycle
  lease_held :: bool

definition ElectionManager_Open ::
  "ElectionManager \<Rightarrow> manager_error option \<times> ElectionManager" where
  "ElectionManager_Open m =
     (case election_lifecycle m of
        NotOpened \<Rightarrow> (None, m\<lparr>election_lifecycle := Opened\<rparr>)
      | Opened \<Rightarrow> (Some AlreadyOpen, m)
      | Closed \<Rightarrow> (Some AlreadyClosed, m))"

definition ElectionManager_Close ::
  "ElectionManager \<Rightarrow> manager_error option \<times> ElectionManager \<times> release list" where
  "ElectionManager_Close m =
     (case election_lifecycle m of
        NotOpened \<Rightarrow> (Some NotOpen, m, [])
      | Opened \<Rightarrow>
          (None, m\<lparr>election_lifecycle := Closed, lease_held := False\<rparr>,
           EndCampaign # (if lease_held m then [ReleaseLease] else []))
      | Closed \<Rightarrow> (Some AlreadyClosed, m, []))"

subsection \<open>FlushTimesManager\<close>

text \<open>
  Modelled from the spec: \<^verbatim>\<open>ShardSetFlushTimes\<close> (the generated flush package is
  missing), the watermark of each shard of a shard set: shard ID and watermark, as the
  entries of a Go map. \<open>map_of\<close> looks a shard up.
\<close>

type_synonym ShardSetFlushTimes = "(nat \<times> int) list"

text \<open>
  Modelled from the spec: the \<^verbatim>\<open>FlushTimesManager\<close> (its implementation is missing).
  It holds the snapshot most recently observed from the store, which is what \<^verbatim>\<open>Get\<close>
  returns; the last known watermark of each shard, which is what \<^verbatim>\<open>StoreAsync\<close>
  validates against and which counts the updates it has accepted; and the accepted
  updates whose write has not happened yet, oldest first.
\<close>

record FlushTimesManager =
  flush_lifecycle :: lifecycle
  shardSetID :: nat
  observed_times :: "ShardSetFlushTimes option"
  last_known :: ShardSetFlushTimes
  pending :: "ShardSetFlushTimes list"











text \<open>Modelled from the spec: \<^verbatim>\<open>Close\<close> stops the background watch and discards the
  state.\<close>

definition FlushTimesManager_Close ::
  "FlushTimesManager \<Rightarrow> manager_error option \<times> FlushTimesManager \<times> release list" where
  "FlushTimesManager_Close m =
     (case flush_lifecycle m of
        NotOpened \<Rightarrow> (Some NotOpen, m, [])
      | Opened \<Rightarrow>
          (None,
           m\<lparr>flush_lifecycle := Closed, observed_times := None, last_known := [],
             pending := []\<rparr>,
           [StopWatch])
      | Closed \<Rightarrow> (Some AlreadyClosed, m, []))"









subsection \<open>PlacementManager\<close>

text \<open>
  Modelled from the spec: the placement data (the cluster's placement and shard packages
  are missing). An instance is its ID and the shards it owns, each in a state; a
  placement lists the instances and carries its cutover time; an
  \<^verbatim>\<open>ActiveStagedPlacement\<close> holds the placement in effect and the staged ones, strictly
  ordered by cutover time, and resolves, for a time, to the placement active then: a
  staged placement is active from its cutover instant on.
\<close>

datatype ShardState = Initializing | Available | Leaving

type_synonym Shards = "(nat \<times> ShardState) list"

record Instance =
  instance_id :: string
  instance_shards :: Shards

record Placement =
  cutover :: int
  instances :: "Instance list"

record ActiveStagedPlacement =
  in_effect :: Placement
  staged :: "Placement list"

definition ordered_by_cutover :: "ActiveStagedPlacement \<Rightarrow> bool" where
  "ordered_by_cutover h = sorted_wrt (<) (map cutover (in_effect h # staged h))"

definition ActivePlacement :: "ActiveStagedPlacement \<Rightarrow> int \<Rightarrow> Placement" where
  "ActivePlacement h now = foldl (\<lambda>a p. if cutover p \<le> now then p else a) (in_effect h) (staged h)"

text \<open>The shards a placement assigns to an instance ID, if it lists the instance.\<close>

definition assigned_shards :: "Placement \<Rightarrow> string \<Rightarrow> Shards option" where
  "assigned_shards p i = map_option instance_shards (find (\<lambda>x. instance_id x = i) (instances p))"

text \<open>
  Modelled from the spec: the \<^verbatim>\<open>PlacementManager\<close> (its implementation is missing).
  It knows the ID of its own process, has its lifecycle, and caches the holder last
  observed from the placement store.
\<close>

record PlacementManager =
  instanceID :: string
  placement_lifecycle :: lifecycle
  observed :: "ActiveStagedPlacement option"




text \<open>Modelled from the spec: \<^verbatim>\<open>Close\<close> stops watching and discards the cached
  state; a second call fails with \<open>AlreadyClosed\<close>.\<close>

definition PlacementManager_Close ::
  "PlacementManager \<Rightarrow> manager_error option \<times> PlacementManager \<times> release list" where
  "PlacementManager_Close m =
     (case placement_lifecycle m of
        NotOpened \<Rightarrow> (Some NotOpen, m, [])
      | Opened \<Rightarrow> (None, m\<lparr>placement_lifecycle := Closed, observed := None\<rparr>, [StopWatch])
      | Closed \<Rightarrow> (Some AlreadyClosed, m, []))"

text \<open>Modelled from the spec: \<^verbatim>\<open>Placement\<close> returns the holder and the snapshot it
  resolves to at the time of the process's clock.\<close>

definition Placement ::
  "PlacementManager \<Rightarrow> int \<Rightarrow> manager_error + (ActiveStagedPlacement \<times> Placement)" where
  "Placement m now =
     (if placement_lifecycle m \<noteq> Opened then Inl NotOpen
      else case observed m of
             None \<Rightarrow> Inl NoPlacement
           | Some h \<Rightarrow> Inr (h, ActivePlacement h now))"

text \<open>Modelled from the spec: \<^verbatim>\<open>InstanceFrom\<close> resolves this process's ownership under
  the placement it is given, and \<^verbatim>\<open>Instance\<close> under the currently active one.\<close>

definition InstanceFrom :: "Placement \<Rightarrow> PlacementManager \<Rightarrow> manager_error + Instance" where
  "InstanceFrom p m =
     (case find (\<lambda>i. instance_id i = instanceID m) (instances p) of
        None \<Rightarrow> Inl InstanceNotFound
      | Some i \<Rightarrow> Inr i)"

definition Instance :: "PlacementManager \<Rightarrow> int \<Rightarrow> manager_error + Instance" where
  "Instance m now =
     (case Placement m now of
        Inl err \<Rightarrow> Inl err
      | Inr (h, p) \<Rightarrow> InstanceFrom p m)"

text \<open>The shards of the instance a call returned, if it returned one.\<close>

definition owned :: "manager_error + Instance \<Rightarrow> Shards option" where
  "owned r = (case r of Inl err \<Rightarrow> None | Inr i \<Rightarrow> Some (instance_shards i))"






section \<open>Properties of the docker test harness\<close>

subsection \<open>withDefaults\<close>

lemma withDefaults_override:
  "overrideDefaults opts \<Longrightarrow> withDefaults opts defaultOpts = opts"
  by (simp add: withDefaults_def)

lemma withDefaults_fields:
  assumes "\<not> overrideDefaults opts"
  shows "source (withDefaults opts defaultOpts) =
           (if length (source opts) = 0 then source defaultOpts else source opts)"
    and "containerName (withDefaults opts defaultOpts) =
           (if length (containerName opts) = 0 then containerName defaultOpts
            else containerName opts)"
    and "dockerFile (withDefaults opts defaultOpts) =
           (if length (dockerFile opts) = 0 then dockerFile defaultOpts else dockerFile opts)"
    and "portList (withDefaults opts defaultOpts) =
           (if len (portList opts) = 0 then portList defaultOpts else portList opts)"
    and "mounts (withDefaults opts defaultOpts) =
           (if len (mounts opts) = 0 then mounts defaultOpts else mounts opts)"
    and "iOpts (withDefaults opts defaultOpts) =
           (if iOpts opts = None then iOpts defaultOpts else iOpts opts)"
    and "overrideDefaults (withDefaults opts defaultOpts) = False"
  using assms by (auto simp add: withDefaults_def Let_def)

text \<open>
  Claim C9. With \<^verbatim>\<open>overrideDefaults\<close> set, \<^verbatim>\<open>withDefaults\<close> returns the receiver as
  it is, whatever the defaults are. Otherwise each of \<^verbatim>\<open>source\<close>,
  \<^verbatim>\<open>containerName\<close>, \<^verbatim>\<open>dockerFile\<close>, \<^verbatim>\<open>portList\<close>, \<^verbatim>\<open>mounts\<close> and \<^verbatim>\<open>iOpts\<close>
  keeps the receiver's value when that is non-empty (non-nil for \<^verbatim>\<open>iOpts\<close>), and
  takes the value of the defaults when it is empty or nil.
\<close>

theorem withDefaults_fills_unset_fields:
  "(overrideDefaults opts \<longrightarrow> withDefaults opts defaultOpts = opts) \<and>
   (\<not> overrideDefaults opts \<longrightarrow>
      source (withDefaults opts defaultOpts) =
        (if source opts \<noteq> [] then source opts else source defaultOpts) \<and>
      containerName (withDefaults opts defaultOpts) =
        (if containerName opts \<noteq> [] then containerName opts else containerName defaultOpts) \<and>
      dockerFile (withDefaults opts defaultOpts) =
        (if dockerFile opts \<noteq> [] then dockerFile opts else dockerFile defaultOpts) \<and>
      portList (withDefaults opts defaultOpts) =
        (if 0 < len (portList opts) then portList opts else portList defaultOpts) \<and>
      mounts (withDefaults opts defaultOpts) =
        (if 0 < len (mounts opts) then mounts opts else mounts defaultOpts) \<and>
      iOpts (withDefaults opts defaultOpts) =
        (if iOpts opts \<noteq> None then iOpts opts else iOpts defaultOpts))"
proof (cases "overrideDefaults opts")
  case True
  then show ?thesis by (simp add: withDefaults_override)
next
  case False
  then show ?thesis by (auto simp add: withDefaults_fields)
qed

theorem withDefaults_fills_unset_fields_witness:
  "withDefaults
     \<lparr>overrideDefaults = True, source = '''', containerName = '''', dockerFile = '''',
      portList = Nil_slice, mounts = Nil_slice, iOpts = None\<rparr>
     \<lparr>overrideDefaults = False, source = ''dbnode'', containerName = ''dbnode01'',
      dockerFile = ''./m3dbnode.Dockerfile'', portList = Slice [2379, 9000],
      mounts = Slice [''/etc/m3dbnode''], iOpts = Some ''defaults''\<rparr> =
     \<lparr>overrideDefaults = True, source = '''', containerName = '''', dockerFile = '''',
      portList = Nil_slice, mounts = Nil_slice, iOpts = None\<rparr> \<and>
   source (withDefaults
     \<lparr>overrideDefaults = False, source = '''', containerName = ''coordinator01'',
      dockerFile = '''', portList = Slice [], mounts = Slice [''/tmp/m3kv''],
      iOpts = Some ''mine''\<rparr>
     \<lparr>overrideDefaults = False, source = ''dbnode'', containerName = ''dbnode01'',
      dockerFile = ''./m3dbnode.Dockerfile'', portList = Slice [2379, 9000],
      mounts = Slice [''/etc/m3dbnode''], iOpts = Some ''defaults''\<rparr>) = ''dbnode'' \<and>
   containerName (withDefaults
     \<lparr>overrideDefaults = False, source = '''', containerName = ''coordinator01'',
      dockerFile = '''', portList = Slice [], mounts = Slice [''/tmp/m3kv''],
      iOpts = Some ''mine''\<rparr>
     \<lparr>overrideDefaults = False, source = ''dbnode'', containerName = ''dbnode01'',
      dockerFile = ''./m3dbnode.Dockerfile'', portList = Slice [2379, 9000],
      mounts = Slice [''/etc/m3dbnode''], iOpts = Some ''defaults''\<rparr>) = ''coordinator01'' \<and>
   portList (withDefaults
     \<lparr>overrideDefaults = False, source = '''', containerName = ''coordinator01'',
      dockerFile = '''', portList = Slice [], mounts = Slice [''/tmp/m3kv''],
      iOpts = Some ''mine''\<rparr>
     \<lparr>overrideDefaults = False, source = ''dbnode'', containerName = ''dbnode01'',
      dockerFile = ''./m3dbnode.Dockerfile'', portList = Slice [2379, 9000],
      mounts = Slice [''/etc/m3dbnode''], iOpts = Some ''defaults''\<rparr>) = Slice [2379, 9000] \<and>
   mounts (withDefaults
     \<lparr>overrideDefaults = False, source = '''', containerName = ''coordinator01'',
      dockerFile = '''', portList = Slice [], mounts = Slice [''/tmp/m3kv''],
      iOpts = Some ''mine''\<rparr>
     \<lparr>overrideDefaults = False, source = ''dbnode'', containerName = ''dbnode01'',
      dockerFile = ''./m3dbnode.Dockerfile'', portList = Slice [2379, 9000],
      mounts = Slice [''/etc/m3dbnode''], iOpts = Some ''defaults''\<rparr>) = Slice [''/tmp/m3kv''] \<and>
   iOpts (withDefaults
     \<lparr>overrideDefaults = False, source = '''', containerName = ''coordinator01'',
      dockerFile = '''', portList = Slice [], mounts = Slice [''/tmp/m3kv''],
      iOpts = Some ''mine''\<rparr>
     \<lparr>overrideDefaults = False, source = ''dbnode'', containerName = ''dbnode01'',
      dockerFile = ''./m3dbnode.Dockerfile'', portList = Slice [2379, 9000],
      mounts = Slice [''/etc/m3dbnode''], iOpts = Some ''defaults''\<rparr>) = Some ''mine''"
  using
    withDefaults_fills_unset_fields [of
     "\<lparr>overrideDefaults = True, source = '''', containerName = '''', dockerFile = '''',
      portList = Nil_slice, mounts = Nil_slice, iOpts = None\<rparr>"
     "\<lparr>overrideDefaults = False, source = ''dbnode'', containerName = ''dbnode01'',
      dockerFile = ''./m3dbnode.Dockerfile'', portList = Slice [2379, 9000],
      mounts = Slice [''/etc/m3dbnode''], iOpts = Some ''defaults''\<rparr>"]
    withDefaults_fills_unset_fields [of
     "\<lparr>overrideDefaults = False, source = '''', containerName = ''coordinator01'',
      dockerFile = '''', portList = Slice [], mounts = Slice [''/tmp/m3kv''],
      iOpts = Some ''mine''\<rparr>"
     "\<lparr>overrideDefaults = False, source = ''dbnode'', containerName = ''dbnode01'',
      dockerFile = ''./m3dbnode.Dockerfile'', portList = Slice [2379, 9000],
      mounts = Slice [''/etc/m3dbnode''], iOpts = Some ''defaults''\<rparr>"]
  by simp

subsection \<open>dockerResource.close\<close>

lemma close_closed:
  "closed c \<Longrightarrow>
     close purge c = (Some errClosed, c, [LogError ''closing closed resource'' (Some errClosed)])"
  by (simp add: close_def)

lemma close_sets_closed:
  "close purge c = (err, c1, fx) \<Longrightarrow> closed c1"
  by (auto simp: close_def Let_def split: if_splits prod.splits)

lemma purges_close_closed: "closed c \<Longrightarrow> purges (snd (snd (close purge c))) = 0"
  by (simp add: close_def purges_def)

lemma purges_close_open: "\<not> closed c \<Longrightarrow> purges (snd (snd (close purge c))) = 1"
  by (simp add: close_def purges_def Let_def split: prod.splits)

lemma purges_append: "purges (xs @ ys) = purges xs + purges ys"
  by (simp add: purges_def)

lemma purges_close_calls_closed:
  "closed c \<Longrightarrow> purges (snd (snd (close_calls purge n c))) = 0"
  by (induction n) (auto simp add: close_closed purges_def split: prod.splits)

text \<open>Only the first call on an open resource purges the container.\<close>

lemma purges_close_calls:
  "purges (snd (snd (close_calls purge n c))) = (if closed c \<or> n = 0 then 0 else 1)"
proof (cases n)
  case 0
  then show ?thesis by (simp add: purges_def)
next
  case (Suc k)
  show ?thesis
  proof (cases "closed c")
    case True
    then show ?thesis by (simp add: purges_close_calls_closed)
  next
    case False
    obtain err c1 fx where c: "close purge c = (err, c1, fx)"
      by (cases "close purge c") auto
    then have c1: "closed c1" by (rule close_sets_closed)
    have fx: "purges fx = 1" using purges_close_open [OF False, of purge] c by simp
    obtain errs c2 fxs where r: "close_calls purge k c1 = (errs, c2, fxs)"
      by (cases "close_calls purge k c1") auto
    have "purges fxs = 0" using purges_close_calls_closed [OF c1, of purge k] r by simp
    with fx c r Suc False show ?thesis by (simp add: purges_append)
  qed
qed

text \<open>
  A second \<^verbatim>\<open>close\<close> after a first one returns \<^verbatim>\<open>errClosed\<close>, leaves the resource
  and its pool as they were and purges nothing: all it does is log the error. Over any
  number of \<^verbatim>\<open>close\<close> calls in a row the container is purged at most once. The flag
  is set before the purge, so the same holds after a first call whose purge failed.
\<close>

lemma close_twice_errClosed:
  "close purge c = (err, c1, fx) \<Longrightarrow>
     close purge c1 =
       (Some errClosed, c1, [LogError ''closing closed resource'' (Some errClosed)]) \<and>
     purges (snd (snd (close purge c1))) = 0 \<and>
     purges (snd (snd (close_calls purge n c))) \<le> 1"
proof -
  assume "close purge c = (err, c1, fx)"
  then have c1: "closed c1" by (rule close_sets_closed)
  have "purges (snd (snd (close purge c1))) = 0"
    using c1 by (rule purges_close_closed)
  moreover have "purges (snd (snd (close_calls purge n c))) \<le> 1"
    by (simp add: purges_close_calls)
  ultimately show ?thesis using c1 by (simp add: close_closed)
qed

subsection \<open>toResponse and toResponseThrift\<close>

lemma sdiv_100_eq_2: "(k::int) sdiv 100 = 2 \<longleftrightarrow> 200 \<le> k \<and> k \<le> 299"
proof (cases "0 \<le> k")
  case True
  then have "k sdiv 100 = k div 100" by (simp add: signed_divide_int_def sgn_if)
  then show ?thesis using True by auto
next
  case False
  then have "k sdiv 100 = - (\<bar>k\<bar> div 100)" by (simp add: signed_divide_int_def sgn_if)
  moreover have "0 \<le> \<bar>k\<bar> div 100" by simp
  ultimately show ?thesis using False by auto
qed

lemma toResponseThrift_toResponse:
  "toResponseThrift unmarshal resp response = toResponse unmarshal resp response"
  by (simp add: toResponse_def toResponseThrift_def)

lemma toResponse_read_error:
  "read_all (Body resp) = Inl e \<Longrightarrow>
     toResponse unmarshal resp response =
       (Some e, response, [LogError ''could not read body'' (Some e)])"
  by (simp add: toResponse_def)

lemma toResponse_status_error:
  "read_all (Body resp) = Inr b \<Longrightarrow>
   \<not> (200 \<le> StatusCode resp \<and> StatusCode resp \<le> 299) \<Longrightarrow>
     toResponse unmarshal resp response =
       (Some (StatusCodeError (StatusCode resp)), response,
        [LogError ''status code not 2xx'' None, BodyClose (close_err (Body resp))])"
  by (simp add: toResponse_def sdiv_100_eq_2)

lemma toResponse_unmarshal_error:
  "read_all (Body resp) = Inr b \<Longrightarrow> 200 \<le> StatusCode resp \<Longrightarrow> StatusCode resp \<le> 299 \<Longrightarrow>
   unmarshal b response = (Some e, response') \<Longrightarrow>
     toResponse unmarshal resp response =
       (Some e, response',
        [LogError ''unable to unmarshal response'' (Some e), BodyClose (close_err (Body resp))])"
  by (simp add: toResponse_def sdiv_100_eq_2)

lemma toResponse_nil_iff:
  "fst (toResponse unmarshal resp response) = None \<longleftrightarrow>
     (\<exists>b. read_all (Body resp) = Inr b \<and> 200 \<le> StatusCode resp \<and> StatusCode resp \<le> 299 \<and>
          fst (unmarshal b response) = None)"
  by (auto simp add: toResponse_def sdiv_100_eq_2 split: sum.splits prod.splits option.splits)

lemma toResponse_close_err_dropped:
  "fst (toResponse unmarshal (resp\<lparr>Body := (Body resp)\<lparr>close_err := x\<rparr>\<rparr>) response) =
     fst (toResponse unmarshal resp response) \<and>
   fst (snd (toResponse unmarshal (resp\<lparr>Body := (Body resp)\<lparr>close_err := x\<rparr>\<rparr>) response)) =
     fst (snd (toResponse unmarshal resp response)) \<and>
   filter (logs e) (snd (snd
      (toResponse unmarshal (resp\<lparr>Body := (Body resp)\<lparr>close_err := x\<rparr>\<rparr>) response))) =
     filter (logs e) (snd (snd (toResponse unmarshal resp response)))"
  by (auto simp add: toResponse_def split: sum.splits prod.splits option.splits)

text \<open>
  Claim C10, as stated, fails where the deferred \<^verbatim>\<open>resp.Body.Close()\<close> returns an
  error: on the error return for status 500 the decoder calls \<^verbatim>\<open>Close\<close>, \<^verbatim>\<open>Close\<close>
  returns an error, and that error is neither returned nor logged.
\<close>

theorem toResponse_drops_close_error:
  "toResponse unmarshal_any
     \<lparr>StatusCode = 500, Status = ''500 Internal Server Error'',
      Body = \<lparr>read_all = Inr ''{}'', close_err = Some (LibError ''close failed'')\<rparr>\<rparr> () =
     (Some (StatusCodeError 500), (),
      [LogError ''status code not 2xx'' None, BodyClose (Some (LibError ''close failed''))]) \<and>
   \<not> surfaces (LibError ''close failed'')
       (toResponse unmarshal_any
          \<lparr>StatusCode = 500, Status = ''500 Internal Server Error'',
           Body = \<lparr>read_all = Inr ''{}'', close_err = Some (LibError ''close failed'')\<rparr>\<rparr> ())"
  by (simp add: toResponse_def surfaces_def signed_divide_int_def)

text \<open>
  Claim C10, amended. \<^verbatim>\<open>toResponseThrift\<close> runs the steps of \<^verbatim>\<open>toResponse\<close> with its
  own unmarshaller. A response whose status code is outside 200..299 gets a non-nil
  error. The result is \<^verbatim>\<open>nil\<close> exactly when the body was read, the status code is in
  200..299 and the body unmarshalled. An error of reading the body is returned (and
  logged); a status outside 200..299 on a body that was read returns the status-code
  error; an error of unmarshalling is returned (and logged) with the message as the
  unmarshaller left it. What the deferred \<^verbatim>\<open>resp.Body.Close()\<close> returns changes neither
  the returned error nor the message nor the log lines: it is discarded.
\<close>

theorem toResponse_returns_errors:
  "toResponseThrift unmarshal resp response = toResponse unmarshal resp response \<and>
   (\<not> (200 \<le> StatusCode resp \<and> StatusCode resp \<le> 299) \<longrightarrow>
      fst (toResponse unmarshal resp response) \<noteq> None) \<and>
   (fst (toResponse unmarshal resp response) = None \<longleftrightarrow>
      (\<exists>b. read_all (Body resp) = Inr b \<and> 200 \<le> StatusCode resp \<and> StatusCode resp \<le> 299 \<and>
           fst (unmarshal b response) = None)) \<and>
   (\<forall>e. read_all (Body resp) = Inl e \<longrightarrow>
      toResponse unmarshal resp response =
        (Some e, response, [LogError ''could not read body'' (Some e)])) \<and>
   (\<forall>b. read_all (Body resp) = Inr b \<and> \<not> (200 \<le> StatusCode resp \<and> StatusCode resp \<le> 299) \<longrightarrow>
      fst (toResponse unmarshal resp response) = Some (StatusCodeError (StatusCode resp))) \<and>
   (\<forall>b e response'. read_all (Body resp) = Inr b \<and> 200 \<le> StatusCode resp \<and>
        StatusCode resp \<le> 299 \<and> unmarshal b response = (Some e, response') \<longrightarrow>
      fst (toResponse unmarshal resp response) = Some e \<and>
      fst (snd (toResponse unmarshal resp response)) = response' \<and>
      surfaces e (toResponse unmarshal resp response)) \<and>
   (\<forall>x e.
      fst (toResponse unmarshal (resp\<lparr>Body := (Body resp)\<lparr>close_err := x\<rparr>\<rparr>) response) =
        fst (toResponse unmarshal resp response) \<and>
      fst (snd (toResponse unmarshal (resp\<lparr>Body := (Body resp)\<lparr>close_err := x\<rparr>\<rparr>) response)) =
        fst (snd (toResponse unmarshal resp response)) \<and>
      filter (logs e) (snd (snd
          (toResponse unmarshal (resp\<lparr>Body := (Body resp)\<lparr>close_err := x\<rparr>\<rparr>) response))) =
        filter (logs e) (snd (snd (toResponse unmarshal resp response))))"
proof -
  have thrift: "toResponseThrift unmarshal resp response = toResponse unmarshal resp response"
    by (rule toResponseThrift_toResponse)
  have nil: "fst (toResponse unmarshal resp response) = None \<longleftrightarrow>
      (\<exists>b. read_all (Body resp) = Inr b \<and> 200 \<le> StatusCode resp \<and> StatusCode resp \<le> 299 \<and>
           fst (unmarshal b response) = None)"
    by (rule toResponse_nil_iff)
  from nil have status: "\<not> (200 \<le> StatusCode resp \<and> StatusCode resp \<le> 299) \<longrightarrow>
      fst (toResponse unmarshal resp response) \<noteq> None"
    by blast
  have rd: "\<forall>e. read_all (Body resp) = Inl e \<longrightarrow>
      toResponse unmarshal resp response =
        (Some e, response, [LogError ''could not read body'' (Some e)])"
    by (simp add: toResponse_read_error)
  have st: "\<forall>b. read_all (Body resp) = Inr b \<and>
        \<not> (200 \<le> StatusCode resp \<and> StatusCode resp \<le> 299) \<longrightarrow>
      fst (toResponse unmarshal resp response) = Some (StatusCodeError (StatusCode resp))"
    using toResponse_status_error [of resp _ unmarshal response] by auto
  have um: "\<forall>b e response'. read_all (Body resp) = Inr b \<and> 200 \<le> StatusCode resp \<and>
        StatusCode resp \<le> 299 \<and> unmarshal b response = (Some e, response') \<longrightarrow>
      fst (toResponse unmarshal resp response) = Some e \<and>
      fst (snd (toResponse unmarshal resp response)) = response' \<and>
      surfaces e (toResponse unmarshal resp response)"
    by (auto simp add: toResponse_unmarshal_error surfaces_def)
  have cl: "\<forall>x e.
      fst (toResponse unmarshal (resp\<lparr>Body := (Body resp)\<lparr>close_err := x\<rparr>\<rparr>) response) =
        fst (toResponse unmarshal resp response) \<and>
      fst (snd (toResponse unmarshal (resp\<lparr>Body := (Body resp)\<lparr>close_err := x\<rparr>\<rparr>) response)) =
        fst (snd (toResponse unmarshal resp response)) \<and>
      filter (logs e) (snd (snd
          (toResponse unmarshal (resp\<lparr>Body := (Body resp)\<lparr>close_err := x\<rparr>\<rparr>) response))) =
        filter (logs e) (snd (snd (toResponse unmarshal resp response)))"
    by (intro allI) (rule toResponse_close_err_dropped)
  show ?thesis
    by (intro conjI thrift status nil rd st um cl)
qed

theorem toResponse_returns_errors_witness:
  "fst (toResponse (\<lambda>b m. (None, b))
     \<lparr>StatusCode = 300, Status = ''300 Multiple Choices'',
      Body = \<lparr>read_all = Inr ''{}'', close_err = None\<rparr>\<rparr> '''') = Some (StatusCodeError 300) \<and>
   fst (toResponse (\<lambda>b m. (None, b))
     \<lparr>StatusCode = 299, Status = ''299'',
      Body = \<lparr>read_all = Inr ''{}'', close_err = None\<rparr>\<rparr> '''') = None \<and>
   toResponse (\<lambda>b m. (None, b))
     \<lparr>StatusCode = 200, Status = ''200 OK'',
      Body = \<lparr>read_all = Inl (LibError ''unexpected EOF''), close_err = None\<rparr>\<rparr> '''' =
     (Some (LibError ''unexpected EOF''), '''',
      [LogError ''could not read body'' (Some (LibError ''unexpected EOF''))]) \<and>
   fst (toResponse (\<lambda>b m. (Some (LibError ''bad json''), take 1 b))
     \<lparr>StatusCode = 200, Status = ''200 OK'',
      Body = \<lparr>read_all = Inr ''{]'', close_err = None\<rparr>\<rparr> '''') = Some (LibError ''bad json'') \<and>
   fst (snd (toResponse (\<lambda>b m. (Some (LibError ''bad json''), take 1 b))
     \<lparr>StatusCode = 200, Status = ''200 OK'',
      Body = \<lparr>read_all = Inr ''{]'', close_err = None\<rparr>\<rparr> '''')) = ''{''"
  using
    toResponse_returns_errors [of "\<lambda>b m. (None, b)"
     "\<lparr>StatusCode = 300, Status = ''300 Multiple Choices'',
      Body = \<lparr>read_all = Inr ''{}'', close_err = None\<rparr>\<rparr>" "''''"]
    toResponse_returns_errors [of "\<lambda>b m. (None, b)"
     "\<lparr>StatusCode = 299, Status = ''299'',
      Body = \<lparr>read_all = Inr ''{}'', close_err = None\<rparr>\<rparr>" "''''"]
    toResponse_returns_errors [of "\<lambda>b m. (None, b)"
     "\<lparr>StatusCode = 200, Status = ''200 OK'',
      Body = \<lparr>read_all = Inl (LibError ''unexpected EOF''), close_err = None\<rparr>\<rparr>" "''''"]
    toResponse_returns_errors [of "\<lambda>b m. (Some (LibError ''bad json''), take 1 b)"
     "\<lparr>StatusCode = 200, Status = ''200 OK'',
      Body = \<lparr>read_all = Inr ''{]'', close_err = None\<rparr>\<rparr>" "''''"]
  by simp


section \<open>Properties of the aggregator's managers\<close>

subsection \<open>FlushTimesManager\<close>





























subsection \<open>PlacementManager\<close>










text \<open>
  What a holder resolves to, when its placements are strictly ordered by cutover and
  the one in effect has been cut over: one of its placements, cut over by now, and of
  those the one cut over last.
\<close>

lemma foldl_latest:
  assumes "sorted_wrt (<) (map cutover (a # ps))" and "cutover a \<le> now"
  shows "foldl (\<lambda>a p. if cutover p \<le> now then p else a) a ps \<in> set (a # ps) \<and>
         cutover (foldl (\<lambda>a p. if cutover p \<le> now then p else a) a ps) \<le> now \<and>
         (\<forall>q \<in> set (a # ps). cutover q \<le> now \<longrightarrow>
            cutover q \<le> cutover (foldl (\<lambda>a p. if cutover p \<le> now then p else a) a ps))"
  using assms
proof (induction ps arbitrary: a)
  case Nil
  then show ?case by simp
next
  case (Cons p ps)
  show ?case
  proof (cases "cutover p \<le> now")
    case True
    have s: "sorted_wrt (<) (map cutover (p # ps))" using Cons.prems(1) by simp
    have "cutover a < cutover p" using Cons.prems(1) by simp
    with Cons.IH [OF s True] True show ?thesis by auto
  next
    case False
    have s: "sorted_wrt (<) (map cutover (a # ps))" using Cons.prems(1) by simp
    from Cons.IH [OF s Cons.prems(2)] False show ?thesis by auto
  qed
qed

lemma ActivePlacement_latest:
  assumes "ordered_by_cutover h" and "cutover (in_effect h) \<le> now"
  shows "ActivePlacement h now \<in> set (in_effect h # staged h)"
    and "cutover (ActivePlacement h now) \<le> now"
    and "\<forall>q \<in> set (in_effect h # staged h). cutover q \<le> now \<longrightarrow>
           cutover q \<le> cutover (ActivePlacement h now)"
  using foldl_latest [of "in_effect h" "staged h" now] assms
  unfolding ActivePlacement_def ordered_by_cutover_def by blast+

lemma owned_InstanceFrom: "owned (InstanceFrom p m) = assigned_shards p (instanceID m)"
  by (simp add: owned_def InstanceFrom_def assigned_shards_def split: option.splits)

lemma owned_differ: "owned r \<noteq> owned r' \<Longrightarrow> r \<noteq> r'"
  by auto

text \<open>
  Claim C6. Let the manager be open with a holder observed whose placements are
  strictly ordered by cutover, the one in effect cut over by now, and let \<open>p\<close> be a
  placement whose cutover time is still ahead, staged in the holder or not.
  \<^verbatim>\<open>InstanceFrom(p)\<close> returns
  the shards that \<open>p\<close> itself assigns to this instance. \<^verbatim>\<open>Instance()\<close> at the same
  moment returns the shards assigned by the currently active placement: a placement of
  the holder that has been cut over, the latest such, and so not \<open>p\<close>. When \<open>p\<close> and the
  active placement assign different shards to this instance, the two results differ.
\<close>

theorem InstanceFrom_staged_placement:
  assumes "placement_lifecycle m = Opened" and "observed m = Some h"
    and "ordered_by_cutover h" and "cutover (in_effect h) \<le> now"
    and "now < cutover p"
  shows "owned (InstanceFrom p m) = assigned_shards p (instanceID m) \<and>
         owned (Instance m now) = assigned_shards (ActivePlacement h now) (instanceID m) \<and>
         ActivePlacement h now \<in> set (in_effect h # staged h) \<and>
         cutover (ActivePlacement h now) \<le> now \<and>
         (\<forall>q \<in> set (in_effect h # staged h). cutover q \<le> now \<longrightarrow>
            cutover q \<le> cutover (ActivePlacement h now)) \<and>
         ActivePlacement h now \<noteq> p \<and>
         (assigned_shards p (instanceID m) \<noteq>
            assigned_shards (ActivePlacement h now) (instanceID m) \<longrightarrow>
          InstanceFrom p m \<noteq> Instance m now)"
proof -
  have i: "Instance m now = InstanceFrom (ActivePlacement h now) m"
    using assms(1,2) by (simp add: Instance_def Placement_def)
  have a: "cutover (ActivePlacement h now) \<le> now"
    using ActivePlacement_latest(2) [OF assms(3,4)] .
  with assms(5) have n: "ActivePlacement h now \<noteq> p" by auto
  have d: "InstanceFrom p m \<noteq> Instance m now"
    if "assigned_shards p (instanceID m) \<noteq>
        assigned_shards (ActivePlacement h now) (instanceID m)"
    using that i by (intro owned_differ) (simp add: owned_InstanceFrom)
  from i a n d ActivePlacement_latest(1,3) [OF assms(3,4)] show ?thesis
    by (simp add: owned_InstanceFrom)
qed

theorem InstanceFrom_staged_placement_witness:
  "owned (InstanceFrom
     \<lparr>cutover = 100, instances = [\<lparr>instance_id = ''agg-0'', instance_shards = [(0, Leaving)]\<rparr>,
        \<lparr>instance_id = ''agg-1'', instance_shards = [(0, Initializing), (1, Available)]\<rparr>]\<rparr>
     \<lparr>instanceID = ''agg-1'', placement_lifecycle = Opened,
      observed = Some \<lparr>in_effect = \<lparr>cutover = 0, instances =
          [\<lparr>instance_id = ''agg-0'', instance_shards = [(0, Available)]\<rparr>,
           \<lparr>instance_id = ''agg-1'', instance_shards = [(1, Available)]\<rparr>]\<rparr>,
        staged = [\<lparr>cutover = 100, instances =
          [\<lparr>instance_id = ''agg-0'', instance_shards = [(0, Leaving)]\<rparr>,
           \<lparr>instance_id = ''agg-1'',
            instance_shards = [(0, Initializing), (1, Available)]\<rparr>]\<rparr>]\<rparr>\<rparr>) =
     Some [(0, Initializing), (1, Available)] \<and>
   owned (Instance
     \<lparr>instanceID = ''agg-1'', placement_lifecycle = Opened,
      observed = Some \<lparr>in_effect = \<lparr>cutover = 0, instances =
          [\<lparr>instance_id = ''agg-0'', instance_shards = [(0, Available)]\<rparr>,
           \<lparr>instance_id = ''agg-1'', instance_shards = [(1, Available)]\<rparr>]\<rparr>,
        staged = [\<lparr>cutover = 100, instances =
          [\<lparr>instance_id = ''agg-0'', instance_shards = [(0, Leaving)]\<rparr>,
           \<lparr>instance_id = ''agg-1'',
            instance_shards = [(0, Initializing), (1, Available)]\<rparr>]\<rparr>]\<rparr>\<rparr> 50) =
     Some [(1, Available)] \<and>
   InstanceFrom
     \<lparr>cutover = 100, instances = [\<lparr>instance_id = ''agg-0'', instance_shards = [(0, Leaving)]\<rparr>,
        \<lparr>instance_id = ''agg-1'', instance_shards = [(0, Initializing), (1, Available)]\<rparr>]\<rparr>
     \<lparr>instanceID = ''agg-1'', placement_lifecycle = Opened,
      observed = Some \<lparr>in_effect = \<lparr>cutover = 0, instances =
          [\<lparr>instance_id = ''agg-0'', instance_shards = [(0, Available)]\<rparr>,
           \<lparr>instance_id = ''agg-1'', instance_shards = [(1, Available)]\<rparr>]\<rparr>,
        staged = [\<lparr>cutover = 100, instances =
          [\<lparr>instance_id = ''agg-0'', instance_shards = [(0, Leaving)]\<rparr>,
           \<lparr>instance_id = ''agg-1'',
            instance_shards = [(0, Initializing), (1, Available)]\<rparr>]\<rparr>]\<rparr>\<rparr> \<noteq>
   Instance
     \<lparr>instanceID = ''agg-1'', placement_lifecycle = Opened,
      observed = Some \<lparr>in_effect = \<lparr>cutover = 0, instances =
          [\<lparr>instance_id = ''agg-0'', instance_shards = [(0, Available)]\<rparr>,
           \<lparr>instance_id = ''agg-1'', instance_shards = [(1, Available)]\<rparr>]\<rparr>,
        staged = [\<lparr>cutover = 100, instances =
          [\<lparr>instance_id = ''agg-0'', instance_shards = [(0, Leaving)]\<rparr>,
           \<lparr>instance_id = ''agg-1'',
            instance_shards = [(0, Initializing), (1, Available)]\<rparr>]\<rparr>]\<rparr>\<rparr> 50"
proof -
  have o: "placement_lifecycle
     \<lparr>instanceID = ''agg-1'', placement_lifecycle = Opened,
      observed = Some \<lparr>in_effect = \<lparr>cutover = 0, instances =
          [\<lparr>instance_id = ''agg-0'', instance_shards = [(0, Available)]\<rparr>,
           \<lparr>instance_id = ''agg-1'', instance_shards = [(1, Available)]\<rparr>]\<rparr>,
        staged = [\<lparr>cutover = 100, instances =
          [\<lparr>instance_id = ''agg-0'', instance_shards = [(0, Leaving)]\<rparr>,
           \<lparr>instance_id = ''agg-1'',
            instance_shards = [(0, Initializing), (1, Available)]\<rparr>]\<rparr>]\<rparr>\<rparr> = Opened"
    by simp
  have h: "observed
     \<lparr>instanceID = ''agg-1'', placement_lifecycle = Opened,
      observed = Some \<lparr>in_effect = \<lparr>cutover = 0, instances =
          [\<lparr>instance_id = ''agg-0'', instance_shards = [(0, Available)]\<rparr>,
           \<lparr>instance_id = ''agg-1'', instance_shards = [(1, Available)]\<rparr>]\<rparr>,
        staged = [\<lparr>cutover = 100, instances =
          [\<lparr>instance_id = ''agg-0'', instance_shards = [(0, Leaving)]\<rparr>,
           \<lparr>instance_id = ''agg-1'',
            instance_shards = [(0, Initializing), (1, Available)]\<rparr>]\<rparr>]\<rparr>\<rparr> =
     Some \<lparr>in_effect = \<lparr>cutover = 0, instances =
          [\<lparr>instance_id = ''agg-0'', instance_shards = [(0, Available)]\<rparr>,
           \<lparr>instance_id = ''agg-1'', instance_shards = [(1, Available)]\<rparr>]\<rparr>,
        staged = [\<lparr>cutover = 100, instances =
          [\<lparr>instance_id = ''agg-0'', instance_shards = [(0, Leaving)]\<rparr>,
           \<lparr>instance_id = ''agg-1'',
            instance_shards = [(0, Initializing), (1, Available)]\<rparr>]\<rparr>]\<rparr>"
    by simp
  have s: "ordered_by_cutover \<lparr>in_effect = \<lparr>cutover = 0, instances =
          [\<lparr>instance_id = ''agg-0'', instance_shards = [(0, Available)]\<rparr>,
           \<lparr>instance_id = ''agg-1'', instance_shards = [(1, Available)]\<rparr>]\<rparr>,
        staged = [\<lparr>cutover = 100, instances =
          [\<lparr>instance_id = ''agg-0'', instance_shards = [(0, Leaving)]\<rparr>,
           \<lparr>instance_id = ''agg-1'',
            instance_shards = [(0, Initializing), (1, Available)]\<rparr>]\<rparr>]\<rparr>"
    by (simp add: ordered_by_cutover_def)
  have e: "cutover (in_effect \<lparr>in_effect = \<lparr>cutover = 0, instances =
          [\<lparr>instance_id = ''agg-0'', instance_shards = [(0, Available)]\<rparr>,
           \<lparr>instance_id = ''agg-1'', instance_shards = [(1, Available)]\<rparr>]\<rparr>,
        staged = [\<lparr>cutover = 100, instances =
          [\<lparr>instance_id = ''agg-0'', instance_shards = [(0, Leaving)]\<rparr>,
           \<lparr>instance_id = ''agg-1'',
            instance_shards = [(0, Initializing), (1, Available)]\<rparr>]\<rparr>]\<rparr>) \<le> 50"
    by simp
  have c: "(50 :: int) < cutover
     \<lparr>cutover = 100, instances = [\<lparr>instance_id = ''agg-0'', instance_shards = [(0, Leaving)]\<rparr>,
        \<lparr>instance_id = ''agg-1'', instance_shards = [(0, Initializing), (1, Available)]\<rparr>]\<rparr>"
    by simp
  from InstanceFrom_staged_placement [OF o h s e c] show ?thesis
    by (simp add: ActivePlacement_def assigned_shards_def)
qed


subsection \<open>Close\<close>

lemma calls_fixed:
  assumes "f s = (err, s, [])"
  shows "calls f n s = (s, [])"
  by (induction n) (simp_all add: assms)

text \<open>Only the first \<^verbatim>\<open>Close\<close> of an open manager releases anything.\<close>

lemma PlacementManager_Close_calls:
  "snd (calls PlacementManager_Close n m) =
     (if placement_lifecycle m = Opened \<and> 0 < n then [StopWatch] else [])"
proof (cases n)
  case 0
  then show ?thesis by simp
next
  case (Suc k)
  show ?thesis
  proof (cases "placement_lifecycle m")
    case NotOpened
    then have "PlacementManager_Close m = (Some NotOpen, m, [])"
      by (simp add: PlacementManager_Close_def)
    from calls_fixed [where f = PlacementManager_Close and s = m, OF this] NotOpened show ?thesis by simp
  next
    case Opened
    have "PlacementManager_Close (m\<lparr>placement_lifecycle := Closed, observed := None\<rparr>) =
        (Some AlreadyClosed, m\<lparr>placement_lifecycle := Closed, observed := None\<rparr>, [])"
      by (simp add: PlacementManager_Close_def)
    from calls_fixed [where f = PlacementManager_Close and n = k and
        s = "m\<lparr>placement_lifecycle := Closed, observed := None\<rparr>", OF this]
      Opened Suc show ?thesis
      by (simp add: PlacementManager_Close_def)
  next
    case Closed
    then have "PlacementManager_Close m = (Some AlreadyClosed, m, [])"
      by (simp add: PlacementManager_Close_def)
    from calls_fixed [where f = PlacementManager_Close and s = m, OF this] Closed show ?thesis by simp
  qed
qed

lemma FlushTimesManager_Close_calls:
  "snd (calls FlushTimesManager_Close n m) =
     (if flush_lifecycle m = Opened \<and> 0 < n then [StopWatch] else [])"
proof (cases n)
  case 0
  then show ?thesis by simp
next
  case (Suc k)
  show ?thesis
  proof (cases "flush_lifecycle m")
    case NotOpened
    then have "FlushTimesManager_Close m = (Some NotOpen, m, [])"
      by (simp add: FlushTimesManager_Close_def)
    from calls_fixed [where f = FlushTimesManager_Close and s = m, OF this] NotOpened show ?thesis by simp
  next
    case Opened
    have "FlushTimesManager_Close
        (m\<lparr>flush_lifecycle := Closed, observed_times := None, last_known := [], pending := []\<rparr>) =
        (Some AlreadyClosed,
         m\<lparr>flush_lifecycle := Closed, observed_times := None, last_known := [], pending := []\<rparr>,
         [])"
      by (simp add: FlushTimesManager_Close_def)
    from calls_fixed [where f = FlushTimesManager_Close and n = k and
        s = "m\<lparr>flush_lifecycle := Closed, observed_times := None, last_known := [], pending := []\<rparr>", OF this]
      Opened Suc show ?thesis
      by (simp add: FlushTimesManager_Close_def)
  next
    case Closed
    then have "FlushTimesManager_Close m = (Some AlreadyClosed, m, [])"
      by (simp add: FlushTimesManager_Close_def)
    from calls_fixed [where f = FlushTimesManager_Close and s = m, OF this] Closed show ?thesis by simp
  qed
qed

lemma ElectionManager_Close_calls:
  "snd (calls ElectionManager_Close n m) =
     (if election_lifecycle m = Opened \<and> 0 < n
      then EndCampaign # (if lease_held m then [ReleaseLease] else [])
      else [])"
proof (cases n)
  case 0
  then show ?thesis by simp
next
  case (Suc k)
  show ?thesis
  proof (cases "election_lifecycle m")
    case NotOpened
    then have "ElectionManager_Close m = (Some NotOpen, m, [])"
      by (simp add: ElectionManager_Close_def)
    from calls_fixed [where f = ElectionManager_Close and s = m, OF this] NotOpened show ?thesis by simp
  next
    case Opened
    have "ElectionManager_Close (m\<lparr>election_lifecycle := Closed, lease_held := False\<rparr>) =
        (Some AlreadyClosed, m\<lparr>election_lifecycle := Closed, lease_held := False\<rparr>, [])"
      by (simp add: ElectionManager_Close_def)
    from calls_fixed [where f = ElectionManager_Close and n = k and
        s = "m\<lparr>election_lifecycle := Closed, lease_held := False\<rparr>", OF this]
      Opened Suc show ?thesis
      by (simp add: ElectionManager_Close_def)
  next
    case Closed
    then have "ElectionManager_Close m = (Some AlreadyClosed, m, [])"
      by (simp add: ElectionManager_Close_def)
    from calls_fixed [where f = ElectionManager_Close and s = m, OF this] Closed show ?thesis by simp
  qed
qed

lemma PlacementManager_Close_twice:
  "fst (PlacementManager_Close m) = None \<Longrightarrow>
     PlacementManager_Close (fst (snd (PlacementManager_Close m))) =
       (Some AlreadyClosed, fst (snd (PlacementManager_Close m)), [])"
  by (cases "placement_lifecycle m") (simp_all add: PlacementManager_Close_def)

lemma FlushTimesManager_Close_twice:
  "fst (FlushTimesManager_Close m) = None \<Longrightarrow>
     FlushTimesManager_Close (fst (snd (FlushTimesManager_Close m))) =
       (Some AlreadyClosed, fst (snd (FlushTimesManager_Close m)), [])"
  by (cases "flush_lifecycle m") (simp_all add: FlushTimesManager_Close_def)

lemma ElectionManager_Close_twice:
  "fst (ElectionManager_Close m) = None \<Longrightarrow>
     ElectionManager_Close (fst (snd (ElectionManager_Close m))) =
       (Some AlreadyClosed, fst (snd (ElectionManager_Close m)), [])"
  by (cases "election_lifecycle m") (simp_all add: ElectionManager_Close_def)

text \<open>
  Claim C4. For each of the three managers: a \<^verbatim>\<open>Close\<close> after a \<^verbatim>\<open>Close\<close> that
  succeeded returns \<open>AlreadyClosed\<close>, leaves the manager as it was and releases
  nothing; and over any number of \<^verbatim>\<open>Close\<close> calls in a row, on a manager in any
  state, each thing released (the watch, the campaign, the lease) is released at most
  once. So does \<^verbatim>\<open>dockerResource.close\<close> of the test harness, with \<^verbatim>\<open>errClosed\<close> for
  the error and the purge of the container for the release.
\<close>

theorem Close_twice_AlreadyClosed:
  "(fst (PlacementManager_Close pm) = None \<longrightarrow>
      PlacementManager_Close (fst (snd (PlacementManager_Close pm))) =
        (Some AlreadyClosed, fst (snd (PlacementManager_Close pm)), [])) \<and>
   (\<forall>x. count_list (snd (calls PlacementManager_Close n pm)) x \<le> 1) \<and>
   (fst (ElectionManager_Close em) = None \<longrightarrow>
      ElectionManager_Close (fst (snd (ElectionManager_Close em))) =
        (Some AlreadyClosed, fst (snd (ElectionManager_Close em)), [])) \<and>
   (\<forall>x. count_list (snd (calls ElectionManager_Close n em)) x \<le> 1) \<and>
   (fst (FlushTimesManager_Close fm) = None \<longrightarrow>
      FlushTimesManager_Close (fst (snd (FlushTimesManager_Close fm))) =
        (Some AlreadyClosed, fst (snd (FlushTimesManager_Close fm)), [])) \<and>
   (\<forall>x. count_list (snd (calls FlushTimesManager_Close n fm)) x \<le> 1) \<and>
   close purge (fst (snd (close purge c))) =
     (Some errClosed, fst (snd (close purge c)),
      [LogError ''closing closed resource'' (Some errClosed)]) \<and>
   purges (snd (snd (close_calls purge n c))) \<le> 1"
proof -
  have p: "\<forall>x. count_list (snd (calls PlacementManager_Close n pm)) x \<le> 1"
    by (simp add: PlacementManager_Close_calls)
  have e: "\<forall>x. count_list (snd (calls ElectionManager_Close n em)) x \<le> 1"
    by (simp add: ElectionManager_Close_calls)
  have f: "\<forall>x. count_list (snd (calls FlushTimesManager_Close n fm)) x \<le> 1"
    by (simp add: FlushTimesManager_Close_calls)
  obtain err c1 fx where c: "close purge c = (err, c1, fx)"
    by (cases "close purge c") auto
  from close_twice_errClosed [OF c, of n] c
  have d: "close purge (fst (snd (close purge c))) =
     (Some errClosed, fst (snd (close purge c)),
      [LogError ''closing closed resource'' (Some errClosed)]) \<and>
     purges (snd (snd (close_calls purge n c))) \<le> 1"
    by simp
  from p e f d show ?thesis
    by (simp add: PlacementManager_Close_twice ElectionManager_Close_twice
        FlushTimesManager_Close_twice)
qed

theorem Close_twice_AlreadyClosed_witness:
  "PlacementManager_Close
     \<lparr>instanceID = ''agg-1'', placement_lifecycle = Opened,
      observed = Some \<lparr>in_effect = \<lparr>cutover = 0, instances = []\<rparr>, staged = []\<rparr>\<rparr> =
     (None, \<lparr>instanceID = ''agg-1'', placement_lifecycle = Closed, observed = None\<rparr>,
      [StopWatch]) \<and>
   PlacementManager_Close
     \<lparr>instanceID = ''agg-1'', placement_lifecycle = Closed, observed = None\<rparr> =
     (Some AlreadyClosed,
      \<lparr>instanceID = ''agg-1'', placement_lifecycle = Closed, observed = None\<rparr>, []) \<and>
   ElectionManager_Close \<lparr>election_lifecycle = Opened, lease_held = True\<rparr> =
     (None, \<lparr>election_lifecycle = Closed, lease_held = False\<rparr>, [EndCampaign, ReleaseLease]) \<and>
   ElectionManager_Close \<lparr>election_lifecycle = Closed, lease_held = False\<rparr> =
     (Some AlreadyClosed, \<lparr>election_lifecycle = Closed, lease_held = False\<rparr>, []) \<and>
   snd (calls ElectionManager_Close (Suc (Suc (Suc 0)))
          \<lparr>election_lifecycle = Opened, lease_held = True\<rparr>) = [EndCampaign, ReleaseLease] \<and>
   FlushTimesManager_Close
     \<lparr>flush_lifecycle = Opened, shardSetID = 3, observed_times = Some [(0, 100)],
      last_known = [(0, 110)], pending = [[(0, 110)]]\<rparr> =
     (None,
      \<lparr>flush_lifecycle = Closed, shardSetID = 3, observed_times = None, last_known = [],
       pending = []\<rparr>, [StopWatch]) \<and>
   FlushTimesManager_Close
     \<lparr>flush_lifecycle = Closed, shardSetID = 3, observed_times = None, last_known = [],
      pending = []\<rparr> =
     (Some AlreadyClosed,
      \<lparr>flush_lifecycle = Closed, shardSetID = 3, observed_times = None, last_known = [],
       pending = []\<rparr>, [])"
proof -
  have p: "PlacementManager_Close
     \<lparr>instanceID = ''agg-1'', placement_lifecycle = Opened,
      observed = Some \<lparr>in_effect = \<lparr>cutover = 0, instances = []\<rparr>, staged = []\<rparr>\<rparr> =
     (None, \<lparr>instanceID = ''agg-1'', placement_lifecycle = Closed, observed = None\<rparr>,
      [StopWatch])"
    by (simp add: PlacementManager_Close_def)
  have e: "ElectionManager_Close \<lparr>election_lifecycle = Opened, lease_held = True\<rparr> =
     (None, \<lparr>election_lifecycle = Closed, lease_held = False\<rparr>, [EndCampaign, ReleaseLease])"
    by (simp add: ElectionManager_Close_def)
  have f: "FlushTimesManager_Close
     \<lparr>flush_lifecycle = Opened, shardSetID = 3, observed_times = Some [(0, 100)],
      last_known = [(0, 110)], pending = [[(0, 110)]]\<rparr> =
     (None,
      \<lparr>flush_lifecycle = Closed, shardSetID = 3, observed_times = None, last_known = [],
       pending = []\<rparr>, [StopWatch])"
    by (simp add: FlushTimesManager_Close_def)
  have n: "snd (calls ElectionManager_Close (Suc (Suc (Suc 0)))
          \<lparr>election_lifecycle = Opened, lease_held = True\<rparr>) = [EndCampaign, ReleaseLease]"
    by (simp add: ElectionManager_Close_def)
  from Close_twice_AlreadyClosed [of
      "\<lparr>instanceID = ''agg-1'', placement_lifecycle = Opened,
        observed = Some \<lparr>in_effect = \<lparr>cutover = 0, instances = []\<rparr>, staged = []\<rparr>\<rparr>"
      "Suc (Suc (Suc 0))"
      "\<lparr>election_lifecycle = Opened, lease_held = True\<rparr>"
      "\<lparr>flush_lifecycle = Opened, shardSetID = 3, observed_times = Some [(0, 100)],
        last_known = [(0, 110)], pending = [[(0, 110)]]\<rparr>"
      "\<lambda>p r. (None, removeAll r p)"
      "\<lparr>closed = False, resource = ''dbnode01'', pool = [''dbnode01'']\<rparr>"]
    p e f n
  show ?thesis by simp
qed


end
